theory Spec2Isabelle
  imports Main
begin

section \<open>Data model\<close>

text \<open>
  Modelled from the spec: \<^verbatim>\<open>blog/models.py\<close> is not among the sources, so the
  records follow section 3 of the specification (User, Category, Location, Post,
  Comment). Primary keys are natural numbers, timestamps are integers, a nullable
  foreign key is an option of the referenced primary key. The User fields are the ones
  \<^verbatim>\<open>ProfileForm.Meta.fields\<close> names.
\<close>

record user =
  user_id :: nat
  username :: string
  first_name :: string
  last_name :: string
  email :: string

record category =
  category_id :: nat
  category_title :: string
  slug :: string
  category_description :: string
  category_is_published :: bool

record location =
  location_id :: nat
  location_name :: string
  location_is_published :: bool

record post =
  post_id :: nat
  title :: string
  post_text :: string
  image :: "string option"
  pub_date :: int
  is_published :: bool
  created_at :: int
  author :: nat
  category :: "nat option"
  location :: "nat option"

record comment =
  comment_id :: nat
  comment_text :: string
  comment_created_at :: int
  comment_author :: nat
  comment_post :: nat

text \<open>The persistent state: one table (a list of rows) per model.\<close>

record database =
  users :: "user list"
  categories :: "category list"
  locations :: "location list"
  posts :: "post list"
  comments :: "comment list"

section \<open>Requests and responses\<close>

text \<open>
  \<^verbatim>\<open>request.user\<close> is either the anonymous user or a row of the user table.
  \<^verbatim>\<open>request.POST\<close> and \<^verbatim>\<open>request.FILES\<close> are association lists of submitted
  keys and values; \<open>req_page\<close> is the page-number request parameter.
\<close>

datatype identity = AnonymousUser | User user

datatype http_method = GET | POST

type_synonym querydict = "(string \<times> string) list"

record request =
  req_user :: identity
  req_method :: http_method
  req_POST :: querydict
  req_FILES :: querydict
  req_page :: int

text \<open>
  A model form: the submitted data and files (\<open>None\<close> when the constructor received
  \<^verbatim>\<open>None\<close>) and the instance it edits.
\<close>

record 'a form =
  form_data :: "querydict option"
  form_files :: "querydict option"
  form_instance :: "'a option"

text \<open>
  Modelled from the spec: the result of \<^verbatim>\<open>paginate\<close> of section 4.2,
  \<open>(pageItems, hasNext, hasPrev, totalPages)\<close>.
\<close>

record 'a page =
  page_items :: "'a list"
  has_next :: bool
  has_prev :: bool
  total_pages :: nat

datatype url = IndexURL | PostDetailURL nat | ProfileURL string | LoginURL

datatype view_context =
    IndexContext "post page"
  | CategoryContext category "post page"
  | DetailContext post "comment form" "comment list"
  | PostFormContext "post form"
  | ProfileContext user "post page"
  | ProfileFormContext "user form"
  | CommentFormContext "comment form" comment
  | CommentContext comment

datatype response =
    Render string view_context
  | Redirect url
  | NotFound
  | ServerError

section \<open>The ORM operations the views use\<close>

datatype orm_error = DoesNotExist | MultipleObjectsReturned

datatype exn = Http404 | Uncaught orm_error

text \<open>\<^verbatim>\<open>QuerySet.get\<close>: exactly one matching row, or an exception.\<close>

definition orm_get :: "('a \<Rightarrow> bool) \<Rightarrow> 'a list \<Rightarrow> orm_error + 'a" where
  "orm_get P rows =
     (case filter P rows of
        [] \<Rightarrow> Inl DoesNotExist
      | [x] \<Rightarrow> Inr x
      | _ \<Rightarrow> Inl MultipleObjectsReturned)"

text \<open>
  \<^verbatim>\<open>get_object_or_404\<close> turns \<^verbatim>\<open>DoesNotExist\<close> into \<^verbatim>\<open>Http404\<close>; any other
  exception of the lookup propagates.
\<close>

definition get_object_or_404 :: "('a \<Rightarrow> bool) \<Rightarrow> 'a list \<Rightarrow> exn + 'a" where
  "get_object_or_404 P rows =
     (case orm_get P rows of
        Inl DoesNotExist \<Rightarrow> Inl Http404
      | Inl MultipleObjectsReturned \<Rightarrow> Inl (Uncaught MultipleObjectsReturned)
      | Inr x \<Rightarrow> Inr x)"

text \<open>What the framework answers when a view raises.\<close>

fun exn_response :: "exn \<Rightarrow> response" where
  "exn_response Http404 = NotFound"
| "exn_response (Uncaught _) = ServerError"

text \<open>The related managers \<^verbatim>\<open>category.posts\<close>, \<^verbatim>\<open>profile.posts\<close>, \<^verbatim>\<open>post.comments\<close>.\<close>

definition category_dot_posts :: "database \<Rightarrow> category \<Rightarrow> post list" where
  "category_dot_posts db c = filter (\<lambda>p. category p = Some (category_id c)) (posts db)"

definition user_dot_posts :: "database \<Rightarrow> user \<Rightarrow> post list" where
  "user_dot_posts db u = filter (\<lambda>p. author p = user_id u) (posts db)"

definition post_dot_comments :: "database \<Rightarrow> post \<Rightarrow> comment list" where
  "post_dot_comments db p = filter (\<lambda>c. comment_post c = post_id p) (comments db)"

text \<open>Following the foreign key \<^verbatim>\<open>post.category\<close>.\<close>

definition post_dot_category :: "database \<Rightarrow> post \<Rightarrow> category option" where
  "post_dot_category db p =
     (case category p of
        None \<Rightarrow> None
      | Some cid \<Rightarrow> find (\<lambda>c. category_id c = cid) (categories db))"

text \<open>
  \<^verbatim>\<open>request.user == record.author\<close>: model instances are equal when their primary
  keys are, and the anonymous user equals no row of the user table.
\<close>

fun user_is :: "identity \<Rightarrow> nat \<Rightarrow> bool" where
  "user_is AnonymousUser uid = False"
| "user_is (User u) uid = (user_id u = uid)"

text \<open>\<^verbatim>\<open>queryset.order_by(field)\<close>, ascending, rows with equal keys keep their order.\<close>

definition order_by :: "('a \<Rightarrow> int) \<Rightarrow> 'a list \<Rightarrow> 'a list" where
  "order_by field rows = sort_key field rows"

text \<open>An automatic primary key for a new row.\<close>

definition fresh_id :: "nat list \<Rightarrow> nat" where
  "fresh_id ids = Suc (fold max ids 0)"

section \<open>Visibility filter and pagination\<close>

text \<open>
  Modelled from the spec: \<^verbatim>\<open>blog/utils.py\<close> (\<^verbatim>\<open>query_post\<close>, \<^verbatim>\<open>posts_pagination\<close>)
  is not among the sources. The predicate of section 4.1 of the specification:
  \<open>is_published == true AND pub_date <= currentTime AND
  (category is null OR category.is_published == true)\<close>.
\<close>

definition visible :: "database \<Rightarrow> int \<Rightarrow> post \<Rightarrow> bool" where
  "visible db now p \<longleftrightarrow>
     is_published p \<and> pub_date p \<le> now \<and>
     (category p = None \<or>
      (case post_dot_category db p of
         None \<Rightarrow> False
       | Some c \<Rightarrow> category_is_published c))"

text \<open>
  Modelled from the spec: \<^verbatim>\<open>query_post(manager=Post.objects, filters=True)\<close> is
  \<open>visiblePosts(baseCollection, viewerIsAuthorOfAll)\<close> of section 4.1, called with
  \<open>filters = \<not> viewerIsAuthorOfAll\<close>: without filters the collection is returned
  unfiltered, otherwise the predicate applies; the result is ordered by \<open>pub_date\<close>
  descending, ties in the order of the base collection.
\<close>

definition query_post :: "database \<Rightarrow> int \<Rightarrow> post list \<Rightarrow> bool \<Rightarrow> post list" where
  "query_post db now manager filters =
     sort_key (\<lambda>p. - pub_date p)
       (if filters then filter (visible db now) manager else manager)"

text \<open>
  Modelled from the spec: \<open>paginate(orderedSequence, pageNumber, pageSize)\<close> of
  section 4.2. A page number out of range clamps to the nearest valid page, first or
  last.
\<close>

definition paginate :: "'a list \<Rightarrow> int \<Rightarrow> nat \<Rightarrow> 'a page" where
  "paginate orderedSequence pageNumber pageSize =
     (let totalPages = (length orderedSequence + pageSize - 1) div pageSize;
          n = nat (max 1 (min (int totalPages) pageNumber))
      in \<lparr>page_items = take pageSize (drop ((n - 1) * pageSize) orderedSequence),
          has_next = (n < totalPages),
          has_prev = (1 < n),
          total_pages = totalPages\<rparr>)"

text \<open>
  Modelled from the spec: \<^verbatim>\<open>posts_pagination(request, posts)\<close> paginates with the
  page-number request parameter and the fixed page size 10.
\<close>

definition posts_pagination :: "request \<Rightarrow> post list \<Rightarrow> post page" where
  "posts_pagination request post_list = paginate post_list (req_page request) 10"

section \<open>Forms\<close>

text \<open>
  \<^verbatim>\<open>blog/forms.py\<close>. A model form reads from the submitted data only the keys of
  its own fields. \<^verbatim>\<open>PostForm\<close> takes every editable field of \<^verbatim>\<open>Post\<close> except the
  excluded ones, \<^verbatim>\<open>CommentForm\<close> and \<^verbatim>\<open>ProfileForm\<close> list their fields.
\<close>

definition Post_fields :: "string list" where
  "Post_fields =
     [''title'', ''text'', ''image'', ''pub_date'', ''is_published'', ''created_at'',
      ''author'', ''category'', ''location'']"

definition PostForm_exclude :: "string list" where
  "PostForm_exclude = [''author'', ''created_at'']"

definition PostForm_fields :: "string list" where
  "PostForm_fields = filter (\<lambda>f. f \<notin> set PostForm_exclude) Post_fields"

definition CommentForm_fields :: "string list" where
  "CommentForm_fields = [''text'']"

definition ProfileForm_fields :: "string list" where
  "ProfileForm_fields = [''username'', ''first_name'', ''last_name'', ''email'']"

text \<open>The cleaned data of each form: one value per form field.\<close>

record post_fields =
  pf_title :: string
  pf_text :: string
  pf_image :: "string option"
  pf_pub_date :: int
  pf_is_published :: bool
  pf_category :: "nat option"
  pf_location :: "nat option"

record profile_fields =
  uf_username :: string
  uf_first_name :: string
  uf_last_name :: string
  uf_email :: string

type_synonym form_errors = "(string \<times> string) list"

text \<open>
  Validation belongs to the form library: a cleaner is given the database, the
  instance, and the submitted data and files of the form's fields, and answers with
  the field errors or with the cleaned data. It is a parameter of every view that
  validates a form.
\<close>

type_synonym ('a, 'c) cleaner =
  "database \<Rightarrow> 'a option \<Rightarrow> querydict \<Rightarrow> querydict \<Rightarrow> form_errors + 'c"

definition PostForm :: "querydict option \<Rightarrow> querydict option \<Rightarrow> post option \<Rightarrow> post form" where
  "PostForm data files instance =
     \<lparr>form_data = data, form_files = files, form_instance = instance\<rparr>"

definition CommentForm :: "querydict option \<Rightarrow> comment option \<Rightarrow> comment form" where
  "CommentForm data instance =
     \<lparr>form_data = data, form_files = None, form_instance = instance\<rparr>"

definition ProfileForm :: "querydict option \<Rightarrow> user option \<Rightarrow> user form" where
  "ProfileForm data instance =
     \<lparr>form_data = data, form_files = None, form_instance = instance\<rparr>"

text \<open>\<^verbatim>\<open>request.POST or None\<close>: an empty dictionary is falsy.\<close>

definition or_None :: "querydict \<Rightarrow> querydict option" where
  "or_None d = (if d = [] then None else Some d)"

definition form_field_data :: "string list \<Rightarrow> querydict option \<Rightarrow> querydict" where
  "form_field_data names d =
     (case d of None \<Rightarrow> [] | Some kvs \<Rightarrow> filter (\<lambda>kv. fst kv \<in> set names) kvs)"

definition is_bound :: "'a form \<Rightarrow> bool" where
  "is_bound f \<longleftrightarrow> form_data f \<noteq> None \<or> form_files f \<noteq> None"

text \<open>\<open>None\<close> for an unbound form, which has neither errors nor cleaned data.\<close>

definition full_clean ::
  "('a, 'c) cleaner \<Rightarrow> string list \<Rightarrow> database \<Rightarrow> 'a form \<Rightarrow> (form_errors + 'c) option" where
  "full_clean clean names db f =
     (if is_bound f
      then Some (clean db (form_instance f)
                   (form_field_data names (form_data f))
                   (form_field_data names (form_files f)))
      else None)"

definition is_valid :: "('a, 'c) cleaner \<Rightarrow> string list \<Rightarrow> database \<Rightarrow> 'a form \<Rightarrow> bool" where
  "is_valid clean names db f =
     (case full_clean clean names db f of Some (Inr _) \<Rightarrow> True | _ \<Rightarrow> False)"

definition errors :: "('a, 'c) cleaner \<Rightarrow> string list \<Rightarrow> database \<Rightarrow> 'a form \<Rightarrow> form_errors" where
  "errors clean names db f =
     (case full_clean clean names db f of Some (Inl es) \<Rightarrow> es | _ \<Rightarrow> [])"

text \<open>
  Saving a form writes the cleaned value of every form field into the instance; the
  fields outside the form keep the instance's values.
\<close>

definition construct_post :: "post_fields \<Rightarrow> post \<Rightarrow> post" where
  "construct_post c p =
     p\<lparr>title := pf_title c, post_text := pf_text c, image := pf_image c,
       pub_date := pf_pub_date c, is_published := pf_is_published c,
       category := pf_category c, location := pf_location c\<rparr>"

definition construct_comment :: "string \<Rightarrow> comment \<Rightarrow> comment" where
  "construct_comment c k = k\<lparr>comment_text := c\<rparr>"

definition construct_user :: "profile_fields \<Rightarrow> user \<Rightarrow> user" where
  "construct_user c u =
     u\<lparr>username := uf_username c, first_name := uf_first_name c,
       last_name := uf_last_name c, email := uf_email c\<rparr>"

text \<open>
  A new, unsaved instance: the primary key, the creation time and the foreign keys
  are placeholders until the view assigns them and the row is inserted.
\<close>

definition new_post :: post where
  "new_post =
     \<lparr>post_id = 0, title = [], post_text = [], image = None, pub_date = 0,
      is_published = True, created_at = 0, author = 0, category = None,
      location = None\<rparr>"

definition new_comment :: comment where
  "new_comment =
     \<lparr>comment_id = 0, comment_text = [], comment_created_at = 0, comment_author = 0,
      comment_post = 0\<rparr>"

section \<open>Writing to the database\<close>

text \<open>
  Inserting a row gives it a fresh primary key and its automatic creation time;
  saving an existing instance replaces the row with its primary key.
\<close>

definition insert_post :: "database \<Rightarrow> int \<Rightarrow> post \<Rightarrow> database" where
  "insert_post db now p =
     db\<lparr>posts := posts db @
          [p\<lparr>post_id := fresh_id (map post_id (posts db)), created_at := now\<rparr>]\<rparr>"

definition update_post :: "database \<Rightarrow> post \<Rightarrow> database" where
  "update_post db p =
     db\<lparr>posts := map (\<lambda>q. if post_id q = post_id p then p else q) (posts db)\<rparr>"

text \<open>
  Modelled from the spec: the deletion rule of the foreign key \<^verbatim>\<open>Comment.post\<close> is
  declared in \<^verbatim>\<open>blog/models.py\<close>, which is not among the sources. A comment always
  belongs to exactly one post (section 3), so deleting a post deletes its comments with
  it.
\<close>

definition delete_post_row :: "database \<Rightarrow> post \<Rightarrow> database" where
  "delete_post_row db p =
     db\<lparr>posts := filter (\<lambda>q. post_id q \<noteq> post_id p) (posts db),
        comments := filter (\<lambda>c. comment_post c \<noteq> post_id p) (comments db)\<rparr>"

definition insert_comment :: "database \<Rightarrow> int \<Rightarrow> comment \<Rightarrow> database" where
  "insert_comment db now c =
     db\<lparr>comments := comments db @
          [c\<lparr>comment_id := fresh_id (map comment_id (comments db)),
             comment_created_at := now\<rparr>]\<rparr>"

definition update_comment :: "database \<Rightarrow> comment \<Rightarrow> database" where
  "update_comment db c =
     db\<lparr>comments := map (\<lambda>k. if comment_id k = comment_id c then c else k) (comments db)\<rparr>"

definition delete_comment_row :: "database \<Rightarrow> comment \<Rightarrow> database" where
  "delete_comment_row db c =
     db\<lparr>comments := filter (\<lambda>k. comment_id k \<noteq> comment_id c) (comments db)\<rparr>"

definition update_user :: "database \<Rightarrow> user \<Rightarrow> database" where
  "update_user db u =
     db\<lparr>users := map (\<lambda>v. if user_id v = user_id u then u else v) (users db)\<rparr>"

section \<open>The views\<close>

text \<open>
  \<^verbatim>\<open>blog/views.py\<close>. Every view takes the database, the current time (only
  \<^verbatim>\<open>query_post\<close> reads it) and the request; a view that writes returns the new
  database with its response. A view under \<^verbatim>\<open>@login_required\<close> starts by sending
  the anonymous user to the login page.
\<close>

definition index :: "database \<Rightarrow> int \<Rightarrow> request \<Rightarrow> response" where
  "index db now request =
     (let page_obj = posts_pagination request (query_post db now (posts db) True)
      in Render ''blog/index.html'' (IndexContext page_obj))"

definition category_posts :: "database \<Rightarrow> int \<Rightarrow> request \<Rightarrow> string \<Rightarrow> response" where
  "category_posts db now request category_slug =
     (case get_object_or_404
             (\<lambda>c. slug c = category_slug \<and> category_is_published c = True)
             (categories db) of
        Inl e \<Rightarrow> exn_response e
      | Inr cat \<Rightarrow>
          (let page_obj = posts_pagination request
                 (query_post db now (category_dot_posts db cat) True)
           in Render ''blog/category.html'' (CategoryContext cat page_obj)))"

definition post_detail :: "database \<Rightarrow> int \<Rightarrow> request \<Rightarrow> nat \<Rightarrow> response" where
  "post_detail db now request pid =
     (case get_object_or_404 (\<lambda>p. post_id p = pid) (posts db) of
        Inl e \<Rightarrow> exn_response e
      | Inr post \<Rightarrow>
          (case (if \<not> user_is (req_user request) (author post)
                 then get_object_or_404 (\<lambda>p. post_id p = pid)
                        (query_post db now (posts db) True)
                 else Inr post) of
             Inl e \<Rightarrow> exn_response e
           | Inr post \<Rightarrow>
               (let comment_list = order_by comment_created_at (post_dot_comments db post);
                    form = CommentForm None None
                in Render ''blog/detail.html'' (DetailContext post form comment_list))))"

definition create_post ::
  "(post, post_fields) cleaner \<Rightarrow> database \<Rightarrow> int \<Rightarrow> request \<Rightarrow> database \<times> response" where
  "create_post clean db now request =
     (case req_user request of
        AnonymousUser \<Rightarrow> (db, Redirect LoginURL)
      | User u \<Rightarrow>
          (let form = PostForm (or_None (req_POST request)) (or_None (req_FILES request)) None
           in case full_clean clean PostForm_fields db form of
                Some (Inr cleaned) \<Rightarrow>
                  (let post = construct_post cleaned new_post;
                       post = post\<lparr>author := user_id u\<rparr>
                   in (insert_post db now post, Redirect (ProfileURL (username u))))
              | _ \<Rightarrow> (db, Render ''blog/create.html'' (PostFormContext form))))"

definition edit_post ::
  "(post, post_fields) cleaner \<Rightarrow> database \<Rightarrow> int \<Rightarrow> request \<Rightarrow> nat \<Rightarrow> database \<times> response" where
  "edit_post clean db now request pid =
     (case req_user request of
        AnonymousUser \<Rightarrow> (db, Redirect LoginURL)
      | User u \<Rightarrow>
          (case get_object_or_404 (\<lambda>p. post_id p = pid) (posts db) of
             Inl e \<Rightarrow> (db, exn_response e)
           | Inr post \<Rightarrow>
               if \<not> user_is (req_user request) (author post)
               then (db, Redirect (PostDetailURL pid))
               else
                 (let form = PostForm (or_None (req_POST request)) None (Some post)
                  in case full_clean clean PostForm_fields db form of
                       Some (Inr cleaned) \<Rightarrow>
                         (update_post db (construct_post cleaned post),
                          Redirect (PostDetailURL pid))
                     | _ \<Rightarrow> (db, Render ''blog/create.html'' (PostFormContext form)))))"

definition delete_post :: "database \<Rightarrow> int \<Rightarrow> request \<Rightarrow> nat \<Rightarrow> database \<times> response" where
  "delete_post db now request pid =
     (case req_user request of
        AnonymousUser \<Rightarrow> (db, Redirect LoginURL)
      | User u \<Rightarrow>
          (case get_object_or_404 (\<lambda>p. post_id p = pid) (posts db) of
             Inl e \<Rightarrow> (db, exn_response e)
           | Inr post \<Rightarrow>
               if \<not> user_is (req_user request) (author post)
               then (db, Redirect (PostDetailURL pid))
               else
                 (let form = PostForm (or_None (req_POST request)) None (Some post)
                  in if req_method request = POST
                     then (delete_post_row db post, Redirect IndexURL)
                     else (db, Render ''blog/create.html'' (PostFormContext form)))))"

definition profile :: "database \<Rightarrow> int \<Rightarrow> request \<Rightarrow> string \<Rightarrow> response" where
  "profile db now request uname =
     (case get_object_or_404 (\<lambda>u. username u = uname) (users db) of
        Inl e \<Rightarrow> exn_response e
      | Inr profile_user \<Rightarrow>
          (let post_list = query_post db now (user_dot_posts db profile_user)
                 (\<not> user_is (req_user request) (user_id profile_user));
               page_obj = posts_pagination request post_list
           in Render ''blog/profile.html'' (ProfileContext profile_user page_obj)))"

definition edit_profile ::
  "(user, profile_fields) cleaner \<Rightarrow> database \<Rightarrow> int \<Rightarrow> request \<Rightarrow> database \<times> response" where
  "edit_profile clean db now request =
     (case req_user request of
        AnonymousUser \<Rightarrow> (db, Redirect LoginURL)
      | User u \<Rightarrow>
          (let form = ProfileForm (Some (req_POST request)) (Some u)
           in case full_clean clean ProfileForm_fields db form of
                Some (Inr cleaned) \<Rightarrow>
                  (let u' = construct_user cleaned u
                   in (update_user db u', Redirect (ProfileURL (username u'))))
              | _ \<Rightarrow> (db, Render ''blog/user.html'' (ProfileFormContext form))))"

definition add_comment ::
  "(comment, string) cleaner \<Rightarrow> database \<Rightarrow> int \<Rightarrow> request \<Rightarrow> nat \<Rightarrow> database \<times> response" where
  "add_comment clean db now request pid =
     (case req_user request of
        AnonymousUser \<Rightarrow> (db, Redirect LoginURL)
      | User u \<Rightarrow>
          (case get_object_or_404 (\<lambda>p. post_id p = pid) (posts db) of
             Inl e \<Rightarrow> (db, exn_response e)
           | Inr post \<Rightarrow>
               (let form = CommentForm (or_None (req_POST request)) None;
                    db' = (case full_clean clean CommentForm_fields db form of
                             Some (Inr cleaned) \<Rightarrow>
                               (let comment = construct_comment cleaned new_comment;
                                    comment = comment\<lparr>comment_post := post_id post\<rparr>;
                                    comment = comment\<lparr>comment_author := user_id u\<rparr>
                                in insert_comment db now comment)
                           | _ \<Rightarrow> db)
                in (db', Redirect (PostDetailURL pid)))))"

definition edit_comment ::
  "(comment, string) cleaner \<Rightarrow> database \<Rightarrow> int \<Rightarrow> request \<Rightarrow> nat \<Rightarrow> nat \<Rightarrow>
     database \<times> response" where
  "edit_comment clean db now request pid cid =
     (case req_user request of
        AnonymousUser \<Rightarrow> (db, Redirect LoginURL)
      | User u \<Rightarrow>
          (case get_object_or_404 (\<lambda>c. comment_id c = cid) (comments db) of
             Inl e \<Rightarrow> (db, exn_response e)
           | Inr comment \<Rightarrow>
               if \<not> user_is (req_user request) (comment_author comment)
               then (db, Redirect (PostDetailURL pid))
               else
                 (let form = CommentForm (or_None (req_POST request)) (Some comment)
                  in case full_clean clean CommentForm_fields db form of
                       Some (Inr cleaned) \<Rightarrow>
                         (update_comment db (construct_comment cleaned comment),
                          Redirect (PostDetailURL pid))
                     | _ \<Rightarrow>
                         (db, Render ''blog/comment.html'' (CommentFormContext form comment)))))"

definition delete_comment ::
  "database \<Rightarrow> int \<Rightarrow> request \<Rightarrow> nat \<Rightarrow> nat \<Rightarrow> database \<times> response" where
  "delete_comment db now request pid cid =
     (case req_user request of
        AnonymousUser \<Rightarrow> (db, Redirect LoginURL)
      | User u \<Rightarrow>
          (case get_object_or_404 (\<lambda>c. comment_id c = cid) (comments db) of
             Inl e \<Rightarrow> (db, exn_response e)
           | Inr comment \<Rightarrow>
               if \<not> user_is (req_user request) (comment_author comment)
               then (db, Redirect (PostDetailURL pid))
               else if req_method request = POST
               then (delete_comment_row db comment, Redirect (PostDetailURL pid))
               else (db, Render ''blog/comment.html'' (CommentContext comment))))"

text \<open>The posts a listing view hands to its template: the items of \<^verbatim>\<open>page_obj\<close>.\<close>

fun listing :: "response \<Rightarrow> post list" where
  "listing (Render _ (IndexContext pg)) = page_items pg"
| "listing (Render _ (CategoryContext _ pg)) = page_items pg"
| "listing (Render _ (ProfileContext _ pg)) = page_items pg"
| "listing _ = []"

text \<open>The \<^verbatim>\<open>page_obj\<close> of a listing view's context.\<close>

fun page_obj :: "response \<Rightarrow> post page option" where
  "page_obj (Render _ (IndexContext pg)) = Some pg"
| "page_obj (Render _ (CategoryContext _ pg)) = Some pg"
| "page_obj (Render _ (ProfileContext _ pg)) = Some pg"
| "page_obj _ = None"

section \<open>A concrete blog\<close>

text \<open>
  Two users, a published and an unpublished category, and four posts of which only the
  first passes the visibility filter at time 100: the second is unpublished, the third
  is scheduled for a later date, the fourth sits in the unpublished category.
\<close>

definition alice :: user where
  "alice = \<lparr>user_id = 1, username = ''alice'', first_name = ''Alice'', last_name = ''A'',
            email = ''alice@example.org''\<rparr>"

definition bob :: user where
  "bob = \<lparr>user_id = 2, username = ''bob'', first_name = ''Bob'', last_name = ''B'',
          email = ''bob@example.org''\<rparr>"

definition travel :: category where
  "travel = \<lparr>category_id = 1, category_title = ''Travel'', slug = ''travel'',
             category_description = ''Trips'', category_is_published = True\<rparr>"

definition drafts :: category where
  "drafts = \<lparr>category_id = 2, category_title = ''Drafts'', slug = ''drafts'',
             category_description = ''Hidden'', category_is_published = False\<rparr>"

definition post1 :: post where
  "post1 = \<lparr>post_id = 1, title = ''Rome'', post_text = ''Seven hills'', image = None,
            pub_date = 10, is_published = True, created_at = 5, author = 1,
            category = Some 1, location = None\<rparr>"

definition post2 :: post where
  "post2 = \<lparr>post_id = 2, title = ''Notes'', post_text = ''Unfinished'', image = None,
            pub_date = 20, is_published = False, created_at = 6, author = 1,
            category = Some 1, location = None\<rparr>"

definition post3 :: post where
  "post3 = \<lparr>post_id = 3, title = ''Soon'', post_text = ''Scheduled'', image = None,
            pub_date = 500, is_published = True, created_at = 7, author = 2,
            category = None, location = None\<rparr>"

definition post4 :: post where
  "post4 = \<lparr>post_id = 4, title = ''Attic'', post_text = ''Shelved'', image = None,
            pub_date = 30, is_published = True, created_at = 8, author = 2,
            category = Some 2, location = None\<rparr>"

definition comment1 :: comment where
  "comment1 = \<lparr>comment_id = 1, comment_text = ''Second'', comment_created_at = 50,
               comment_author = 2, comment_post = 1\<rparr>"

definition comment2 :: comment where
  "comment2 = \<lparr>comment_id = 2, comment_text = ''First'', comment_created_at = 40,
               comment_author = 1, comment_post = 1\<rparr>"

definition blog :: database where
  "blog = \<lparr>users = [alice, bob], categories = [travel, drafts], locations = [],
           posts = [post1, post2, post3, post4], comments = [comment1, comment2]\<rparr>"

text \<open>The same blog with 23 posts, all of them visible at time 100.\<close>

definition numbered_post :: "nat \<Rightarrow> post" where
  "numbered_post i = post1\<lparr>post_id := i, pub_date := int i\<rparr>"

definition long_blog :: database where
  "long_blog = blog\<lparr>posts := map numbered_post [1..<24]\<rparr>"

definition get_request :: "identity \<Rightarrow> request" where
  "get_request who =
     \<lparr>req_user = who, req_method = GET, req_POST = [], req_FILES = [], req_page = 1\<rparr>"

definition post_request :: "identity \<Rightarrow> querydict \<Rightarrow> request" where
  "post_request who d =
     \<lparr>req_user = who, req_method = POST, req_POST = d, req_FILES = [], req_page = 1\<rparr>"

text \<open>
  Cleaners standing for the form library in the concrete cases: a comment needs a
  non-empty text, a post a title and a text, a profile a user name.
\<close>

definition required :: "querydict \<Rightarrow> string \<Rightarrow> form_errors" where
  "required d name =
     (case map_of d name of
        None \<Rightarrow> [(name, ''This field is required.'')]
      | Some v \<Rightarrow> if v = [] then [(name, ''This field is required.'')] else [])"

definition field_value :: "querydict \<Rightarrow> string \<Rightarrow> string" where
  "field_value d name = (case map_of d name of None \<Rightarrow> [] | Some v \<Rightarrow> v)"

definition comment_cleaner :: "(comment, string) cleaner" where
  "comment_cleaner db instance d files =
     (if required d ''text'' = [] then Inr (field_value d ''text'')
      else Inl (required d ''text''))"

definition post_cleaner :: "(post, post_fields) cleaner" where
  "post_cleaner db instance d files =
     (if required d ''title'' @ required d ''text'' = []
      then Inr \<lparr>pf_title = field_value d ''title'', pf_text = field_value d ''text'',
                pf_image = None, pf_pub_date = 0,
                pf_is_published = (map_of d ''is_published'' \<noteq> None),
                pf_category = None, pf_location = None\<rparr>
      else Inl (required d ''title'' @ required d ''text''))"

definition profile_cleaner :: "(user, profile_fields) cleaner" where
  "profile_cleaner db instance d files =
     (if required d ''username'' = []
      then Inr \<lparr>uf_username = field_value d ''username'',
                uf_first_name = field_value d ''first_name'',
                uf_last_name = field_value d ''last_name'',
                uf_email = field_value d ''email''\<rparr>
      else Inl (required d ''username''))"

section \<open>Lemmas about lookups, the filter and the paginator\<close>

lemmas example_defs = alice_def bob_def travel_def drafts_def post1_def post2_def post3_def
  post4_def comment1_def comment2_def blog_def get_request_def post_request_def

lemma filter_key_unique:
  assumes "distinct (map f xs)" and "x \<in> set xs"
  shows "filter (\<lambda>y. f y = f x) xs = [x]"
  using assms
proof (induction xs)
  case Nil
  then show ?case by simp
next
  case (Cons a xs)
  show ?case
  proof (cases "a = x")
    case True
    have "\<forall>y\<in>set xs. f y \<noteq> f x" using Cons.prems True by (auto simp: image_iff)
    then have "filter (\<lambda>y. f y = f x) xs = []" by (simp add: filter_empty_conv)
    with True show ?thesis by simp
  next
    case False
    then have "x \<in> set xs" using Cons.prems by simp
    moreover have "f a \<noteq> f x" using Cons.prems \<open>x \<in> set xs\<close> by force
    ultimately show ?thesis using Cons by simp
  qed
qed

lemma get_object_by_key:
  assumes "distinct (map f xs)" and "x \<in> set xs"
  shows "get_object_or_404 (\<lambda>y. f y = f x) xs = Inr x"
  by (simp add: get_object_or_404_def orm_get_def filter_key_unique [OF assms])

lemma get_object_missing:
  assumes "\<forall>y\<in>set xs. \<not> P y"
  shows "get_object_or_404 P xs = Inl Http404"
proof -
  have "filter P xs = []" using assms by (simp add: filter_empty_conv)
  then show ?thesis by (simp add: get_object_or_404_def orm_get_def)
qed

lemma set_query_post:
  "set (query_post db now manager filters) =
     (if filters then {p \<in> set manager. visible db now p} else set manager)"
  by (simp add: query_post_def)

lemma set_paginate_subset: "set (page_items (paginate xs n k)) \<subseteq> set xs"
proof -
  have "set (take k (drop d xs)) \<subseteq> set xs" for d
    using set_take_subset set_drop_subset by fast
  then show ?thesis by (simp add: paginate_def Let_def)
qed

lemma paginate_covers:
  assumes "x \<in> set xs" and "0 < k"
  shows "\<exists>n. x \<in> set (page_items (paginate xs n k))"
proof -
  obtain i where i: "i < length xs" "xs ! i = x"
    using assms(1) by (auto simp: in_set_conv_nth)
  let ?q = "i div k"
  have le: "?q + 1 \<le> (length xs + k - 1) div k"
  proof -
    have "i + k \<le> length xs + k - 1" using i(1) by simp
    then have "(i + k) div k \<le> (length xs + k - 1) div k" by (rule div_le_mono)
    then show ?thesis using assms(2) by (simp add: div_add_self2)
  qed
  have n: "nat (max 1 (min (int ((length xs + k - 1) div k)) (int (?q + 1)))) = ?q + 1"
    using le by simp
  have lt: "i mod k < length (drop (?q * k) xs)"
  proof -
    have eq: "?q * k + i mod k = i" by simp
    have "?q * k + i mod k < length xs" by (simp only: eq i(1))
    then show ?thesis by (simp add: less_diff_conv add.commute)
  qed
  have "take k (drop (?q * k) xs) ! (i mod k) = x"
    using assms(2) i lt by simp
  moreover have "i mod k < length (take k (drop (?q * k) xs))"
    using lt assms(2) by simp
  ultimately have "x \<in> set (take k (drop (?q * k) xs))"
    by (metis nth_mem)
  then have "x \<in> set (page_items (paginate xs (int (?q + 1)) k))"
    unfolding paginate_def Let_def using n by simp
  then show ?thesis ..
qed

lemma listing_exn_response: "listing (exn_response e) = []"
  by (cases e) simp_all

lemma exn_response_not_render: "exn_response e \<noteq> Render t c"
  by (cases e) simp_all

section \<open>Visibility of posts\<close>

text \<open>
  C1. A post that is unpublished, or dated after the current time, or whose category is
  unpublished, is in none of the listings (index, category, profile) handed to a viewer
  who is not the post's author, whatever page, category slug and profile name the
  viewer asks for.
\<close>

theorem hidden_post_absent_from_listings:
  assumes hidden: "\<not> is_published p \<or> now < pub_date p \<or>
      (\<exists>c. post_dot_category db p = Some c \<and> \<not> category_is_published c)"
    and viewer: "\<not> user_is (req_user request) (author p)"
  shows "p \<notin> set (listing (index db now request)) \<and>
         p \<notin> set (listing (category_posts db now request category_slug)) \<and>
         p \<notin> set (listing (profile db now request uname))"
proof -
  have nv: "\<not> visible db now p"
    using hidden by (auto simp: visible_def post_dot_category_def split: option.splits)
  have filtered: "p \<notin> set (page_items (posts_pagination request (query_post db now m True)))" for m
    using nv set_paginate_subset [of "query_post db now m True" "req_page request" 10]
    by (auto simp: posts_pagination_def set_query_post)
  have 1: "p \<notin> set (listing (index db now request))"
    using filtered by (simp add: index_def)
  have 2: "p \<notin> set (listing (category_posts db now request category_slug))"
    using filtered by (simp add: category_posts_def listing_exn_response split: sum.splits)
  have 3: "p \<notin> set (listing (profile db now request uname))"
  proof (cases "get_object_or_404 (\<lambda>u. username u = uname) (users db)")
    case (Inl e)
    then show ?thesis by (simp add: profile_def listing_exn_response)
  next
    case (Inr owner)
    show ?thesis
    proof (cases "user_is (req_user request) (user_id owner)")
      case True
      then have "author p \<noteq> user_id owner" using viewer by auto
      then have "p \<notin> set (query_post db now (user_dot_posts db owner) False)"
        by (simp add: set_query_post user_dot_posts_def)
      then have "p \<notin> set (page_items (posts_pagination request
                    (query_post db now (user_dot_posts db owner) False)))"
        using set_paginate_subset posts_pagination_def by (metis subsetD)
      then show ?thesis using Inr True by (simp add: profile_def)
    next
      case False
      then show ?thesis using Inr filtered by (simp add: profile_def)
    qed
  qed
  from 1 2 3 show ?thesis by simp
qed

theorem hidden_post_absent_from_listings_witness:
  "\<not> is_published post2 \<and> \<not> user_is (req_user (get_request (User bob))) (author post2) \<and>
   post2 \<in> set (posts blog) \<and>
   post2 \<notin> set (listing (index blog 100 (get_request (User bob)))) \<and>
   post2 \<notin> set (listing (category_posts blog 100 (get_request (User bob)) ''travel'')) \<and>
   post2 \<notin> set (listing (profile blog 100 (get_request (User bob)) ''alice''))"
  using hidden_post_absent_from_listings
          [of post2 100 blog "get_request (User bob)" "''travel''" "''alice''"]
  by (simp add: post2_def bob_def get_request_def blog_def)

text \<open>
  C3. For a post that exists and fails the visibility predicate, the detail view
  requested by anyone but its author, the anonymous user included, answers not found.
\<close>

theorem hidden_post_detail_not_found:
  assumes "p \<in> set (posts db)" and "distinct (map post_id (posts db))"
    and "\<not> visible db now p"
    and "\<not> user_is (req_user request) (author p)"
  shows "post_detail db now request (post_id p) = NotFound"
proof -
  have first: "get_object_or_404 (\<lambda>q. post_id q = post_id p) (posts db) = Inr p"
    using assms(1,2) by (simp add: get_object_by_key)
  have "\<forall>q\<in>set (query_post db now (posts db) True). post_id q \<noteq> post_id p"
  proof
    fix q assume q: "q \<in> set (query_post db now (posts db) True)"
    then have "q \<in> set (posts db)" and "visible db now q" by (simp_all add: set_query_post)
    show "post_id q \<noteq> post_id p"
    proof
      assume "post_id q = post_id p"
      then have "q = p"
        using assms(1,2) \<open>q \<in> set (posts db)\<close> by (auto simp: distinct_map dest: inj_onD)
      then show False using \<open>visible db now q\<close> assms(3) by simp
    qed
  qed
  then have second: "get_object_or_404 (\<lambda>q. post_id q = post_id p)
                       (query_post db now (posts db) True) = Inl Http404"
    by (rule get_object_missing)
  show ?thesis using first second assms(4) by (simp add: post_detail_def)
qed

theorem hidden_post_detail_not_found_witness:
  "post2 \<in> set (posts blog) \<and> distinct (map post_id (posts blog)) \<and>
   \<not> visible blog 100 post2 \<and> \<not> user_is (req_user (get_request AnonymousUser)) (author post2) \<and>
   post_detail blog 100 (get_request AnonymousUser) 2 = NotFound"
  using hidden_post_detail_not_found [of post2 blog 100 "get_request AnonymousUser"]
  by (simp add: example_defs visible_def)

text \<open>
  C4. The author of a post always gets its detail page, and the post is on some page of
  the author's own profile listing, whatever the post's publication flag, date and
  category.
\<close>

theorem author_sees_own_post:
  assumes "p \<in> set (posts db)" and "distinct (map post_id (posts db))"
    and "u \<in> set (users db)" and "distinct (map username (users db))"
    and "req_user request = User u" and "author p = user_id u"
  shows "post_detail db now request (post_id p) =
           Render ''blog/detail.html''
             (DetailContext p (CommentForm None None)
                (order_by comment_created_at (post_dot_comments db p))) \<and>
         (\<exists>n. p \<in> set (listing (profile db now (request\<lparr>req_page := n\<rparr>) (username u))))"
proof -
  have "get_object_or_404 (\<lambda>q. post_id q = post_id p) (posts db) = Inr p"
    using assms(1,2) by (simp add: get_object_by_key)
  then have detail: "post_detail db now request (post_id p) =
           Render ''blog/detail.html''
             (DetailContext p (CommentForm None None)
                (order_by comment_created_at (post_dot_comments db p)))"
    using assms(5,6) by (simp add: post_detail_def)
  have owner: "get_object_or_404 (\<lambda>v. username v = username u) (users db) = Inr u"
    using assms(3,4) by (simp add: get_object_by_key)
  have "p \<in> set (query_post db now (user_dot_posts db u) False)"
    using assms(1,6) by (simp add: set_query_post user_dot_posts_def)
  then have "\<exists>n. p \<in> set (page_items (paginate
      (query_post db now (user_dot_posts db u) False) n 10))"
    by (rule paginate_covers) simp
  then obtain n where "p \<in> set (page_items (paginate
      (query_post db now (user_dot_posts db u) False) n 10))" ..
  then have "p \<in> set (listing (profile db now (request\<lparr>req_page := n\<rparr>) (username u)))"
    using owner assms(5) by (simp add: profile_def posts_pagination_def)
  then show ?thesis using detail by blast
qed

theorem author_sees_own_post_witness:
  "post2 \<in> set (posts blog) \<and> \<not> is_published post2 \<and>
   post_detail blog 100 (get_request (User alice)) 2 =
     Render ''blog/detail.html'' (DetailContext post2 (CommentForm None None) []) \<and>
   (\<exists>n. post2 \<in> set (listing (profile blog 100 ((get_request (User alice))\<lparr>req_page := n\<rparr>) ''alice'')))"
  using author_sees_own_post [of post2 blog alice "get_request (User alice)" 100]
  by (simp add: example_defs order_by_def post_dot_comments_def)

section \<open>Comments on the detail page\<close>

text \<open>
  C7. The comments a detail page shows are the comments of its post, in non-decreasing
  order of their creation time.
\<close>

theorem detail_comments_oldest_first:
  assumes "post_detail db now request pid = Render template (DetailContext p form comment_list)"
  shows "sorted (map comment_created_at comment_list) \<and>
         set comment_list = {c \<in> set (comments db). comment_post c = post_id p}"
proof -
  have "comment_list = order_by comment_created_at (post_dot_comments db p)"
    using assms
    by (auto simp: post_detail_def Let_def exn_response_not_render split: sum.splits if_splits)
  then show ?thesis by (auto simp: order_by_def post_dot_comments_def)
qed

theorem detail_comments_oldest_first_witness:
  "post_detail blog 100 (get_request AnonymousUser) 1 =
     Render ''blog/detail.html'' (DetailContext post1 (CommentForm None None) [comment2, comment1]) \<and>
   sorted (map comment_created_at [comment2, comment1]) \<and>
   set [comment2, comment1] = {c \<in> set (comments blog). comment_post c = post_id post1}"
proof -
  have r: "post_detail blog 100 (get_request AnonymousUser) 1 =
     Render ''blog/detail.html'' (DetailContext post1 (CommentForm None None) [comment2, comment1])"
    by (simp add: post_detail_def example_defs get_object_or_404_def orm_get_def query_post_def
          visible_def post_dot_category_def order_by_def post_dot_comments_def)
  show ?thesis using r detail_comments_oldest_first [OF r] by simp
qed

section \<open>The category page\<close>

text \<open>
  C8. The category view answers not found when no published category has the slug;
  for the published category with the slug it renders the category page with the
  paginated visible posts of that category.
\<close>

theorem category_posts_404_or_listing:
  "(\<not> (\<exists>c\<in>set (categories db). slug c = category_slug \<and> category_is_published c) \<longrightarrow>
      category_posts db now request category_slug = NotFound) \<and>
   (\<forall>c\<in>set (categories db). distinct (map slug (categories db)) \<and>
        slug c = category_slug \<and> category_is_published c \<longrightarrow>
      category_posts db now request category_slug =
        Render ''blog/category.html''
          (CategoryContext c
             (posts_pagination request (query_post db now (category_dot_posts db c) True))) \<and>
      (\<forall>p\<in>set (listing (category_posts db now request category_slug)).
          p \<in> set (posts db) \<and> category p = Some (category_id c)))"
proof -
  have missing: "category_posts db now request category_slug = NotFound"
    if "\<not> (\<exists>c\<in>set (categories db). slug c = category_slug \<and> category_is_published c)"
  proof -
    have "get_object_or_404 (\<lambda>c. slug c = category_slug \<and> category_is_published c = True)
               (categories db) = Inl Http404"
      using that by (intro get_object_missing) simp
    then show ?thesis by (simp add: category_posts_def)
  qed
  have found: "category_posts db now request category_slug =
        Render ''blog/category.html''
          (CategoryContext c
             (posts_pagination request (query_post db now (category_dot_posts db c) True))) \<and>
      (\<forall>p\<in>set (listing (category_posts db now request category_slug)).
          p \<in> set (posts db) \<and> category p = Some (category_id c))"
    if c: "c \<in> set (categories db)"
      and h: "distinct (map slug (categories db)) \<and> slug c = category_slug \<and>
              category_is_published c"
    for c
  proof -
    have "filter (\<lambda>d. slug d = slug c) (categories db) = [c]"
      using c h filter_key_unique [of slug "categories db" c] by blast
    moreover have "filter (\<lambda>d. slug d = category_slug \<and> category_is_published d = True)
                     (categories db)
                 = filter category_is_published (filter (\<lambda>d. slug d = slug c) (categories db))"
      using h by (auto intro: filter_cong)
    ultimately have "get_object_or_404
               (\<lambda>d. slug d = category_slug \<and> category_is_published d = True)
               (categories db) = Inr c"
      using h by (simp add: get_object_or_404_def orm_get_def)
    then have r: "category_posts db now request category_slug =
        Render ''blog/category.html''
          (CategoryContext c
             (posts_pagination request (query_post db now (category_dot_posts db c) True)))"
      by (simp add: category_posts_def)
    have items: "p \<in> set (posts db) \<and> category p = Some (category_id c)"
      if "p \<in> set (listing (category_posts db now request category_slug))" for p
    proof -
      have "p \<in> set (page_items (paginate (query_post db now (category_dot_posts db c) True)
                   (req_page request) 10))"
        using that r by (simp add: posts_pagination_def)
      then have "p \<in> set (query_post db now (category_dot_posts db c) True)"
        using set_paginate_subset by (rule rev_subsetD)
      then show ?thesis by (simp add: set_query_post category_dot_posts_def)
    qed
    show ?thesis by (rule conjI, rule r, rule ballI, erule items)
  qed
  show ?thesis
  proof (rule conjI)
    show "\<not> (\<exists>c\<in>set (categories db). slug c = category_slug \<and> category_is_published c) \<longrightarrow>
      category_posts db now request category_slug = NotFound"
      by (rule impI) (rule missing)
  next
    show "\<forall>c\<in>set (categories db). distinct (map slug (categories db)) \<and>
        slug c = category_slug \<and> category_is_published c \<longrightarrow>
      category_posts db now request category_slug =
        Render ''blog/category.html''
          (CategoryContext c
             (posts_pagination request (query_post db now (category_dot_posts db c) True))) \<and>
      (\<forall>p\<in>set (listing (category_posts db now request category_slug)).
          p \<in> set (posts db) \<and> category p = Some (category_id c))"
      by (rule ballI, rule impI) (rule found)
  qed
qed


theorem category_posts_404_or_listing_witness:
  "category_posts blog 100 (get_request AnonymousUser) ''drafts'' = NotFound \<and>
   category_posts blog 100 (get_request AnonymousUser) ''cooking'' = NotFound \<and>
   category_posts blog 100 (get_request AnonymousUser) ''travel'' =
     Render ''blog/category.html''
       (CategoryContext travel
          (posts_pagination (get_request AnonymousUser)
             (query_post blog 100 (category_dot_posts blog travel) True))) \<and>
   listing (category_posts blog 100 (get_request AnonymousUser) ''travel'') = [post1]"
proof -
  let ?rq = "get_request AnonymousUser"
  have d: "\<not> (\<exists>c\<in>set (categories blog). slug c = ''drafts'' \<and> category_is_published c)"
    by (simp add: blog_def travel_def drafts_def)
  have k: "\<not> (\<exists>c\<in>set (categories blog). slug c = ''cooking'' \<and> category_is_published c)"
    by (simp add: blog_def travel_def drafts_def)
  have t: "travel \<in> set (categories blog)"
    by (simp add: blog_def)
  have u: "distinct (map slug (categories blog)) \<and> slug travel = ''travel'' \<and>
           category_is_published travel"
    by (simp add: blog_def travel_def drafts_def)
  have 1: "category_posts blog 100 ?rq ''drafts'' = NotFound"
    using category_posts_404_or_listing [where db = blog and category_slug = "''drafts''"] d
    by blast
  have 2: "category_posts blog 100 ?rq ''cooking'' = NotFound"
    using category_posts_404_or_listing [where db = blog and category_slug = "''cooking''"] k
    by blast
  have 3: "category_posts blog 100 ?rq ''travel'' =
     Render ''blog/category.html''
       (CategoryContext travel
          (posts_pagination ?rq (query_post blog 100 (category_dot_posts blog travel) True)))"
    using category_posts_404_or_listing [where db = blog and category_slug = "''travel''"] t u
    by blast
  have q: "query_post blog 100 (category_dot_posts blog travel) True = [post1]"
    by (simp add: example_defs query_post_def category_dot_posts_def visible_def
          post_dot_category_def)
  have 4: "listing (category_posts blog 100 ?rq ''travel'') = [post1]"
    unfolding 3 q by (simp add: posts_pagination_def paginate_def get_request_def)
  from 1 2 3 4 show ?thesis by (intro conjI)
qed

section \<open>Pagination\<close>

lemma paginate_clamp_low: "n \<le> 1 \<Longrightarrow> paginate xs n k = paginate xs 1 k"
  by (simp add: paginate_def Let_def max_def min_def)

lemma paginate_clamp_high:
  "int ((length xs + k - 1) div k) \<le> n \<Longrightarrow>
   paginate xs n k = paginate xs (max 1 (int ((length xs + k - 1) div k))) k"
  by (simp add: paginate_def Let_def max_def min_def)

lemma long_blog_visible: "query_post long_blog 100 (posts long_blog) True
    = sort_key (\<lambda>p. - pub_date p) (posts long_blog)"
proof -
  have "\<forall>p\<in>set (posts long_blog). visible long_blog 100 p"
    by (auto simp: long_blog_def numbered_post_def visible_def post_dot_category_def
          post1_def blog_def travel_def)
  then have "filter (visible long_blog 100) (posts long_blog) = posts long_blog"
    by (simp add: filter_id_conv)
  then show ?thesis by (simp add: query_post_def)
qed

text \<open>
  C9. The index paginates the visible posts with the fixed page size 10, and a page
  number out of range is served as the nearest valid page, never as an error. With 23
  visible posts, page 1 has 10 items and a next page, page 3 has 3 items and no next
  page, page 0 is page 1 and page 4 is page 3.
\<close>

theorem index_pagination:
  "page_obj (index db now request) =
     Some (paginate (query_post db now (posts db) True) (req_page request) 10) \<and>
   length (listing (index db now request)) \<le> 10 \<and>
   (req_page request \<le> 1 \<longrightarrow>
      index db now request = index db now (request\<lparr>req_page := 1\<rparr>)) \<and>
   (\<forall>pg. page_obj (index db now request) = Some pg \<and> int (total_pages pg) \<le> req_page request \<longrightarrow>
      index db now request =
        index db now (request\<lparr>req_page := max 1 (int (total_pages pg))\<rparr>)) \<and>
   (length (query_post db now (posts db) True) = 23 \<longrightarrow>
      length (listing (index db now (request\<lparr>req_page := 1\<rparr>))) = 10 \<and>
      map_option has_next (page_obj (index db now (request\<lparr>req_page := 1\<rparr>))) = Some True \<and>
      length (listing (index db now (request\<lparr>req_page := 3\<rparr>))) = 3 \<and>
      map_option has_next (page_obj (index db now (request\<lparr>req_page := 3\<rparr>))) = Some False \<and>
      index db now (request\<lparr>req_page := 0\<rparr>) = index db now (request\<lparr>req_page := 1\<rparr>) \<and>
      index db now (request\<lparr>req_page := 4\<rparr>) = index db now (request\<lparr>req_page := 3\<rparr>))"
proof -
  let ?xs = "query_post db now (posts db) True"
  have ix: "index db now r = Render ''blog/index.html'' (IndexContext (paginate ?xs (req_page r) 10))"
    for r by (simp add: index_def posts_pagination_def)
  have a: "page_obj (index db now request) = Some (paginate ?xs (req_page request) 10)"
    by (simp add: ix)
  have b: "length (listing (index db now request)) \<le> 10"
    by (simp add: ix paginate_def Let_def)
  have c: "index db now request = index db now (request\<lparr>req_page := 1\<rparr>)"
    if "req_page request \<le> 1"
    using paginate_clamp_low [OF that] by (simp add: ix)
  have d: "index db now request =
        index db now (request\<lparr>req_page := max 1 (int (total_pages pg))\<rparr>)"
    if "page_obj (index db now request) = Some pg \<and> int (total_pages pg) \<le> req_page request"
    for pg
  proof -
    have tp: "total_pages pg = (length ?xs + 10 - 1) div 10"
      using that by (auto simp: ix paginate_def Let_def)
    then have "int ((length ?xs + 10 - 1) div 10) \<le> req_page request"
      using that by simp
    from paginate_clamp_high [OF this] show ?thesis by (simp add: ix tp)
  qed
  have e: "length (listing (index db now (request\<lparr>req_page := 1\<rparr>))) = 10 \<and>
      map_option has_next (page_obj (index db now (request\<lparr>req_page := 1\<rparr>))) = Some True \<and>
      length (listing (index db now (request\<lparr>req_page := 3\<rparr>))) = 3 \<and>
      map_option has_next (page_obj (index db now (request\<lparr>req_page := 3\<rparr>))) = Some False \<and>
      index db now (request\<lparr>req_page := 0\<rparr>) = index db now (request\<lparr>req_page := 1\<rparr>) \<and>
      index db now (request\<lparr>req_page := 4\<rparr>) = index db now (request\<lparr>req_page := 3\<rparr>)"
    if "length ?xs = 23"
    using that by (simp add: ix paginate_def Let_def)
  show ?thesis
    using a b c d e by blast
qed

theorem index_pagination_witness:
  "length (query_post long_blog 100 (posts long_blog) True) = 23 \<and>
   length (listing (index long_blog 100 ((get_request AnonymousUser)\<lparr>req_page := 1\<rparr>))) = 10 \<and>
   map_option has_next
     (page_obj (index long_blog 100 ((get_request AnonymousUser)\<lparr>req_page := 1\<rparr>))) = Some True \<and>
   length (listing (index long_blog 100 ((get_request AnonymousUser)\<lparr>req_page := 3\<rparr>))) = 3 \<and>
   map_option has_next
     (page_obj (index long_blog 100 ((get_request AnonymousUser)\<lparr>req_page := 3\<rparr>))) = Some False \<and>
   index long_blog 100 ((get_request AnonymousUser)\<lparr>req_page := 0\<rparr>) =
     index long_blog 100 ((get_request AnonymousUser)\<lparr>req_page := 1\<rparr>) \<and>
   index long_blog 100 ((get_request AnonymousUser)\<lparr>req_page := 4\<rparr>) =
     index long_blog 100 ((get_request AnonymousUser)\<lparr>req_page := 3\<rparr>)"
proof -
  have n: "length (query_post long_blog 100 (posts long_blog) True) = 23"
    by (simp add: long_blog_visible) (simp add: long_blog_def)
  show ?thesis
    using n index_pagination [of long_blog 100 "get_request AnonymousUser"]
    by simp
qed

section \<open>Creating a post\<close>

lemma is_valid_cleaned:
  "is_valid clean names db f \<longleftrightarrow> (\<exists>c. full_clean clean names db f = Some (Inr c))"
  by (auto simp: is_valid_def split: option.splits sum.splits)

lemma author_not_a_PostForm_field: "''author'' \<notin> set PostForm_fields"
  by (simp add: PostForm_fields_def PostForm_exclude_def Post_fields_def)

lemma form_field_data_extra_key:
  "k \<notin> set names \<Longrightarrow>
   form_field_data names (or_None ((k, v) # d)) = form_field_data names (or_None d)"
  by (simp add: form_field_data_def or_None_def)

lemma not_valid_cases:
  "\<not> is_valid clean names db f \<Longrightarrow>
   full_clean clean names db f = None \<or> (\<exists>es. full_clean clean names db f = Some (Inl es))"
  by (auto simp: is_valid_def split: option.splits sum.splits)

lemma exn_response_not_redirect: "exn_response e \<noteq> Redirect t"
  by (cases e) simp_all

text \<open>
  C5. A valid create-post submission of an authenticated user appends one post whose
  author is that user and redirects to that user's profile; an \<open>author\<close> value added
  to the submitted data changes nothing.
\<close>

theorem create_post_author_is_acting_user:
  assumes user: "req_user request = User u"
    and valid: "is_valid clean PostForm_fields db
                  (PostForm (or_None (req_POST request)) (or_None (req_FILES request)) None)"
  shows "\<exists>post. create_post clean db now request =
                  (db\<lparr>posts := posts db @ [post]\<rparr>, Redirect (ProfileURL (username u))) \<and>
                author post = user_id u \<and>
                (\<forall>v. create_post clean db now
                       (request\<lparr>req_POST := (''author'', v) # req_POST request\<rparr>) =
                     create_post clean db now request)"
proof -
  let ?form = "PostForm (or_None (req_POST request)) (or_None (req_FILES request)) None"
  obtain cleaned where c: "full_clean clean PostForm_fields db ?form = Some (Inr cleaned)"
    using valid by (auto simp: is_valid_cleaned)
  let ?post = "(construct_post cleaned new_post)
                 \<lparr>author := user_id u, post_id := fresh_id (map post_id (posts db)),
                  created_at := now\<rparr>"
  have r: "create_post clean db now request =
             (db\<lparr>posts := posts db @ [?post]\<rparr>, Redirect (ProfileURL (username u)))"
    using user c by (simp add: create_post_def insert_post_def)
  have a: "author ?post = user_id u" by simp
  have bound: "is_bound ?form"
    using c by (auto simp: full_clean_def split: if_splits)
  have same: "create_post clean db now (request\<lparr>req_POST := (''author'', v) # req_POST request\<rparr>)
              = create_post clean db now request" for v
  proof -
    let ?form' = "PostForm (or_None ((''author'', v) # req_POST request))
                    (or_None (req_FILES request)) None"
    have "full_clean clean PostForm_fields db ?form' = full_clean clean PostForm_fields db ?form"
      using bound form_field_data_extra_key [OF author_not_a_PostForm_field, of v "req_POST request"]
      by (simp add: full_clean_def is_bound_def PostForm_def or_None_def)
    then show ?thesis using user c by (simp add: create_post_def)
  qed
  show ?thesis using r a same by blast
qed

theorem create_post_author_is_acting_user_witness:
  "is_valid post_cleaner PostForm_fields blog
     (PostForm (or_None [(''title'', ''Oslo''), (''text'', ''Fjords''), (''author'', ''1'')])
        (or_None []) None) \<and>
   snd (create_post post_cleaner blog 100
          (post_request (User bob)
             [(''title'', ''Oslo''), (''text'', ''Fjords''), (''author'', ''1'')]))
     = Redirect (ProfileURL ''bob'') \<and>
   map author (posts (fst (create_post post_cleaner blog 100
          (post_request (User bob)
             [(''title'', ''Oslo''), (''text'', ''Fjords''), (''author'', ''1'')]))))
     = [1, 1, 2, 2, 2]"
proof -
  let ?d = "[(''title'', ''Oslo''), (''text'', ''Fjords''), (''author'', ''1'')]"
  have v: "is_valid post_cleaner PostForm_fields blog (PostForm (or_None ?d) (or_None []) None)"
    by (simp add: is_valid_def full_clean_def is_bound_def PostForm_def or_None_def
          form_field_data_def PostForm_fields_def PostForm_exclude_def Post_fields_def
          post_cleaner_def required_def)
  have rq: "req_user (post_request (User bob) ?d) = User bob"
       "req_POST (post_request (User bob) ?d) = ?d"
       "req_FILES (post_request (User bob) ?d) = []"
    by (simp_all add: post_request_def)
  have old: "map author (posts blog) = [1, 1, 2, 2]"
    by (simp add: blog_def post1_def post2_def post3_def post4_def)
  from create_post_author_is_acting_user [of "post_request (User bob) ?d" bob post_cleaner blog 100]
  obtain post where "create_post post_cleaner blog 100 (post_request (User bob) ?d) =
      (blog\<lparr>posts := posts blog @ [post]\<rparr>, Redirect (ProfileURL (username bob)))"
      and "author post = user_id bob"
    using v rq by auto
  then show ?thesis using v old by (simp add: bob_def)
qed

section \<open>Editing and deleting comments and posts\<close>

text \<open>
  C10. The comment views look the comment up by its id alone. Through a URL naming any
  post id, the comment's author edits the comment (on a valid form) and deletes it (on
  POST); every redirect of the two views goes to the post id of the URL, and what the
  views write does not depend on that post id.
\<close>

theorem comment_views_ignore_url_post_id:
  assumes c: "c \<in> set (comments db)" and d: "distinct (map comment_id (comments db))"
    and user: "req_user request = User u" and own: "user_id u = comment_author c"
  shows "(\<forall>cleaned. full_clean clean CommentForm_fields db
                      (CommentForm (or_None (req_POST request)) (Some c)) = Some (Inr cleaned) \<longrightarrow>
            edit_comment clean db now request pid (comment_id c) =
              (update_comment db (c\<lparr>comment_text := cleaned\<rparr>), Redirect (PostDetailURL pid))) \<and>
         (req_method request = POST \<longrightarrow>
            delete_comment db now request pid (comment_id c) =
              (delete_comment_row db c, Redirect (PostDetailURL pid))) \<and>
         (\<forall>cid target. snd (edit_comment clean db now request pid cid) = Redirect target \<or>
                        snd (delete_comment db now request pid cid) = Redirect target \<longrightarrow>
            target = PostDetailURL pid) \<and>
         (\<forall>cid pid'. fst (edit_comment clean db now request pid' cid) =
                        fst (edit_comment clean db now request pid cid) \<and>
                      fst (delete_comment db now request pid' cid) =
                        fst (delete_comment db now request pid cid))"
proof -
  have look: "get_object_or_404 (\<lambda>k. comment_id k = comment_id c) (comments db) = Inr c"
    using c d by (simp add: get_object_by_key)
  have 1: "edit_comment clean db now request pid (comment_id c) =
              (update_comment db (c\<lparr>comment_text := cleaned\<rparr>), Redirect (PostDetailURL pid))"
    if "full_clean clean CommentForm_fields db
          (CommentForm (or_None (req_POST request)) (Some c)) = Some (Inr cleaned)" for cleaned
    using that look user own by (simp add: edit_comment_def construct_comment_def)
  have 2: "delete_comment db now request pid (comment_id c) =
              (delete_comment_row db c, Redirect (PostDetailURL pid))"
    if "req_method request = POST"
    using that look user own by (simp add: delete_comment_def)
  have 3: "target = PostDetailURL pid"
    if "snd (edit_comment clean db now request pid cid) = Redirect target \<or>
        snd (delete_comment db now request pid cid) = Redirect target" for cid target
    using that user
    by (auto simp: edit_comment_def delete_comment_def Let_def exn_response_not_redirect
             split: sum.splits if_splits option.splits)
  have 4: "fst (edit_comment clean db now request pid' cid) =
             fst (edit_comment clean db now request pid cid) \<and>
           fst (delete_comment db now request pid' cid) =
             fst (delete_comment db now request pid cid)" for cid pid'
    by (simp add: edit_comment_def delete_comment_def Let_def
             split: identity.splits sum.splits option.splits)
  show ?thesis using 1 2 3 4 by blast
qed

theorem comment_views_ignore_url_post_id_witness:
  "comment_post comment1 = 1 \<and>
   edit_comment comment_cleaner blog 100 (post_request (User bob) [(''text'', ''Edited'')]) 2 1 =
     (blog\<lparr>comments := [comment1\<lparr>comment_text := ''Edited''\<rparr>, comment2]\<rparr>,
      Redirect (PostDetailURL 2)) \<and>
   delete_comment blog 100 (post_request (User bob) [(''text'', ''Edited'')]) 2 1 =
     (blog\<lparr>comments := [comment2]\<rparr>, Redirect (PostDetailURL 2))"
proof -
  let ?rq = "post_request (User bob) [(''text'', ''Edited'')]"
  have c: "comment1 \<in> set (comments blog)" by (simp add: blog_def)
  have d: "distinct (map comment_id (comments blog))"
    by (simp add: blog_def comment1_def comment2_def)
  have u: "req_user ?rq = User bob" by (simp add: post_request_def)
  have o: "user_id bob = comment_author comment1" by (simp add: bob_def comment1_def)
  have m: "req_method ?rq = POST" by (simp add: post_request_def)
  have f: "full_clean comment_cleaner CommentForm_fields blog
             (CommentForm (or_None (req_POST ?rq)) (Some comment1)) = Some (Inr ''Edited'')"
    by (simp add: full_clean_def is_bound_def CommentForm_def or_None_def post_request_def
          form_field_data_def CommentForm_fields_def comment_cleaner_def required_def
          field_value_def)
  have i: "comment_id comment1 = 1" by (simp add: comment1_def)
  have up: "update_comment blog (comment1\<lparr>comment_text := ''Edited''\<rparr>) =
              blog\<lparr>comments := [comment1\<lparr>comment_text := ''Edited''\<rparr>, comment2]\<rparr>"
    by (simp add: update_comment_def blog_def comment1_def comment2_def)
  have del: "delete_comment_row blog comment1 = blog\<lparr>comments := [comment2]\<rparr>"
    by (simp add: delete_comment_row_def blog_def comment1_def comment2_def)
  note t = comment_views_ignore_url_post_id
             [OF c d u o, where clean = comment_cleaner and now = 100 and pid = 2]
  have e1: "edit_comment comment_cleaner blog 100 ?rq 2 (comment_id comment1) =
      (update_comment blog (comment1\<lparr>comment_text := ''Edited''\<rparr>), Redirect (PostDetailURL 2))"
    using t f by blast
  have e2: "delete_comment blog 100 ?rq 2 (comment_id comment1) =
      (delete_comment_row blog comment1, Redirect (PostDetailURL 2))"
    using t m by blast
  show ?thesis using e1 e2 by (simp add: i up del) (simp add: comment1_def)
qed

text \<open>
  C2, as the views have it. An authenticated user who is not the author of a post or
  comment is redirected by the edit and delete views to the detail page of the post id
  in the URL, and the database is unchanged: for a post that is the post itself, for a
  comment it is the parent post only when the URL names the parent. The anonymous user
  is redirected to the login page, the database unchanged as well.
\<close>

theorem non_author_redirected_unchanged:
  "(\<forall>p\<in>set (posts db).
      distinct (map post_id (posts db)) \<and> req_user request \<noteq> AnonymousUser \<and>
      \<not> user_is (req_user request) (author p) \<longrightarrow>
      edit_post clean_post db now request (post_id p) =
        (db, Redirect (PostDetailURL (post_id p))) \<and>
      delete_post db now request (post_id p) =
        (db, Redirect (PostDetailURL (post_id p)))) \<and>
   (\<forall>c\<in>set (comments db).
      distinct (map comment_id (comments db)) \<and> req_user request \<noteq> AnonymousUser \<and>
      \<not> user_is (req_user request) (comment_author c) \<longrightarrow>
      edit_comment clean_comment db now request pid (comment_id c) =
        (db, Redirect (PostDetailURL pid)) \<and>
      delete_comment db now request pid (comment_id c) =
        (db, Redirect (PostDetailURL pid))) \<and>
   (req_user request = AnonymousUser \<longrightarrow>
      edit_post clean_post db now request pid = (db, Redirect LoginURL) \<and>
      delete_post db now request pid = (db, Redirect LoginURL) \<and>
      edit_comment clean_comment db now request pid cid = (db, Redirect LoginURL) \<and>
      delete_comment db now request pid cid = (db, Redirect LoginURL))"
proof -
  have posts: "edit_post clean_post db now request (post_id p) =
              (db, Redirect (PostDetailURL (post_id p))) \<and>
            delete_post db now request (post_id p) =
              (db, Redirect (PostDetailURL (post_id p)))"
    if m: "p \<in> set (posts db)"
      and h: "distinct (map post_id (posts db)) \<and> req_user request \<noteq> AnonymousUser \<and>
           \<not> user_is (req_user request) (author p)" for p
  proof -
    obtain u where u: "req_user request = User u"
      using h by (cases "req_user request") auto
    have "get_object_or_404 (\<lambda>q. post_id q = post_id p) (posts db) = Inr p"
      using m h by (simp add: get_object_by_key)
    then show ?thesis using h u by (simp add: edit_post_def delete_post_def)
  qed
  have comments: "edit_comment clean_comment db now request pid (comment_id c) =
              (db, Redirect (PostDetailURL pid)) \<and>
            delete_comment db now request pid (comment_id c) =
              (db, Redirect (PostDetailURL pid))"
    if m: "c \<in> set (comments db)"
      and h: "distinct (map comment_id (comments db)) \<and> req_user request \<noteq> AnonymousUser \<and>
           \<not> user_is (req_user request) (comment_author c)" for c
  proof -
    obtain u where u: "req_user request = User u"
      using h by (cases "req_user request") auto
    have "get_object_or_404 (\<lambda>k. comment_id k = comment_id c) (comments db) = Inr c"
      using m h by (simp add: get_object_by_key)
    then show ?thesis using h u by (simp add: edit_comment_def delete_comment_def)
  qed
  have anonymous: "edit_post clean_post db now request pid = (db, Redirect LoginURL) \<and>
      delete_post db now request pid = (db, Redirect LoginURL) \<and>
      edit_comment clean_comment db now request pid cid = (db, Redirect LoginURL) \<and>
      delete_comment db now request pid cid = (db, Redirect LoginURL)"
    if "req_user request = AnonymousUser"
    using that by (simp add: edit_post_def delete_post_def edit_comment_def delete_comment_def)
  show ?thesis
    by (rule conjI, rule ballI, rule impI, erule (1) posts,
        rule conjI, rule ballI, rule impI, erule (1) comments,
        rule impI, erule anonymous)
qed

theorem non_author_redirected_unchanged_witness:
  "edit_post post_cleaner blog 100 (post_request (User bob) [(''title'', ''Mine'')]) 1 =
     (blog, Redirect (PostDetailURL 1)) \<and>
   delete_post blog 100 (post_request (User bob) [(''title'', ''Mine'')]) 1 =
     (blog, Redirect (PostDetailURL 1)) \<and>
   edit_comment comment_cleaner blog 100 (post_request (User bob) [(''title'', ''Mine'')]) 1 2 =
     (blog, Redirect (PostDetailURL 1)) \<and>
   delete_comment blog 100 (post_request (User bob) [(''title'', ''Mine'')]) 1 2 =
     (blog, Redirect (PostDetailURL 1))"
proof -
  let ?rq = "post_request (User bob) [(''title'', ''Mine'')]"
  have a: "req_user ?rq \<noteq> AnonymousUser" by (simp add: post_request_def)
  have p: "post1 \<in> set (posts blog)" "post_id post1 = 1"
    "distinct (map post_id (posts blog)) \<and> \<not> user_is (req_user ?rq) (author post1)"
    by (simp_all add: blog_def post1_def post2_def post3_def post4_def post_request_def bob_def)
  have c: "comment2 \<in> set (comments blog)" "comment_id comment2 = 2"
    "distinct (map comment_id (comments blog)) \<and>
     \<not> user_is (req_user ?rq) (comment_author comment2)"
    by (simp_all add: blog_def comment1_def comment2_def post_request_def bob_def)
  note t = non_author_redirected_unchanged
             [where db = blog and now = 100 and pid = 1 and request = "?rq"
                and clean_post = post_cleaner and clean_comment = comment_cleaner]
  have "edit_post post_cleaner blog 100 ?rq (post_id post1) =
          (blog, Redirect (PostDetailURL (post_id post1))) \<and>
        delete_post blog 100 ?rq (post_id post1) =
          (blog, Redirect (PostDetailURL (post_id post1)))"
    using t a p(1,3) by blast
  moreover have "edit_comment comment_cleaner blog 100 ?rq 1 (comment_id comment2) =
          (blog, Redirect (PostDetailURL 1)) \<and>
        delete_comment blog 100 ?rq 1 (comment_id comment2) =
          (blog, Redirect (PostDetailURL 1))"
    using t a c(1,3) by blast
  ultimately show ?thesis by (simp add: p(2) c(2))
qed

text \<open>
  C2 as stated fails twice: a non-author who asks to edit comment 1 of post 1 through
  the URL of post 2 is redirected to post 2, not to the parent post; and the anonymous
  user asking to edit post 1 is redirected to the login page.
\<close>

theorem non_author_comment_redirect_counterexample:
  "comment1 \<in> set (comments blog) \<and>
   \<not> user_is (User alice) (comment_author comment1) \<and>
   edit_comment comment_cleaner blog 100 (get_request (User alice)) 2 (comment_id comment1) =
     (blog, Redirect (PostDetailURL 2)) \<and>
   PostDetailURL 2 \<noteq> PostDetailURL (comment_post comment1) \<and>
   post1 \<in> set (posts blog) \<and>
   \<not> user_is AnonymousUser (author post1) \<and>
   edit_post post_cleaner blog 100 (get_request AnonymousUser) (post_id post1) =
     (blog, Redirect LoginURL)"
  by (simp add: edit_comment_def edit_post_def get_object_or_404_def orm_get_def blog_def
        comment1_def comment2_def post1_def alice_def get_request_def)

section \<open>Invalid submissions\<close>

text \<open>
  C6, as the views have it. An invalid submission of an authenticated user persists
  nothing. Create post, edit post and edit comment (the latter two for the record's
  author) and edit profile render their form again with the submitted data; the errors
  of a bound invalid form are the ones the form library reports. Add comment does not
  render a form: it redirects to the post's detail page.
\<close>

theorem invalid_form_persists_nothing:
  assumes user: "req_user request = User u"
  shows
   "(\<not> is_valid clean_post PostForm_fields db
         (PostForm (or_None (req_POST request)) (or_None (req_FILES request)) None) \<longrightarrow>
       create_post clean_post db now request =
         (db, Render ''blog/create.html''
                (PostFormContext
                   (PostForm (or_None (req_POST request)) (or_None (req_FILES request)) None)))) \<and>
    (\<forall>p\<in>set (posts db).
       distinct (map post_id (posts db)) \<and> author p = user_id u \<and>
       \<not> is_valid clean_post PostForm_fields db
           (PostForm (or_None (req_POST request)) None (Some p)) \<longrightarrow>
       edit_post clean_post db now request (post_id p) =
         (db, Render ''blog/create.html''
                (PostFormContext (PostForm (or_None (req_POST request)) None (Some p))))) \<and>
    (\<forall>c\<in>set (comments db).
       distinct (map comment_id (comments db)) \<and> comment_author c = user_id u \<and>
       \<not> is_valid clean_comment CommentForm_fields db
           (CommentForm (or_None (req_POST request)) (Some c)) \<longrightarrow>
       edit_comment clean_comment db now request pid (comment_id c) =
         (db, Render ''blog/comment.html''
                (CommentFormContext (CommentForm (or_None (req_POST request)) (Some c)) c))) \<and>
    (\<not> is_valid clean_profile ProfileForm_fields db
         (ProfileForm (Some (req_POST request)) (Some u)) \<longrightarrow>
       edit_profile clean_profile db now request =
         (db, Render ''blog/user.html''
                (ProfileFormContext (ProfileForm (Some (req_POST request)) (Some u))))) \<and>
    (\<forall>p\<in>set (posts db).
       distinct (map post_id (posts db)) \<and>
       \<not> is_valid clean_comment CommentForm_fields db
           (CommentForm (or_None (req_POST request)) None) \<longrightarrow>
       add_comment clean_comment db now request (post_id p) =
         (db, Redirect (PostDetailURL (post_id p)))) \<and>
    (is_bound f \<and> \<not> is_valid clean names db f \<longrightarrow>
       full_clean clean names db f = Some (Inl (errors clean names db f)))"
proof -
  have create: "create_post clean_post db now request =
         (db, Render ''blog/create.html''
                (PostFormContext
                   (PostForm (or_None (req_POST request)) (or_None (req_FILES request)) None)))"
    if "\<not> is_valid clean_post PostForm_fields db
         (PostForm (or_None (req_POST request)) (or_None (req_FILES request)) None)"
    using not_valid_cases [OF that] user by (auto simp: create_post_def)
  have edit: "edit_post clean_post db now request (post_id p) =
         (db, Render ''blog/create.html''
                (PostFormContext (PostForm (or_None (req_POST request)) None (Some p))))"
    if m: "p \<in> set (posts db)"
      and h: "distinct (map post_id (posts db)) \<and> author p = user_id u \<and>
       \<not> is_valid clean_post PostForm_fields db
           (PostForm (or_None (req_POST request)) None (Some p))" for p
  proof -
    have "get_object_or_404 (\<lambda>q. post_id q = post_id p) (posts db) = Inr p"
      using m h by (simp add: get_object_by_key)
    moreover have "full_clean clean_post PostForm_fields db
           (PostForm (or_None (req_POST request)) None (Some p)) = None \<or>
        (\<exists>es. full_clean clean_post PostForm_fields db
           (PostForm (or_None (req_POST request)) None (Some p)) = Some (Inl es))"
      using h by (intro not_valid_cases) simp
    ultimately show ?thesis using h user by (auto simp: edit_post_def)
  qed
  have editc: "edit_comment clean_comment db now request pid (comment_id c) =
         (db, Render ''blog/comment.html''
                (CommentFormContext (CommentForm (or_None (req_POST request)) (Some c)) c))"
    if m: "c \<in> set (comments db)"
      and h: "distinct (map comment_id (comments db)) \<and> comment_author c = user_id u \<and>
       \<not> is_valid clean_comment CommentForm_fields db
           (CommentForm (or_None (req_POST request)) (Some c))" for c
  proof -
    have "get_object_or_404 (\<lambda>k. comment_id k = comment_id c) (comments db) = Inr c"
      using m h by (simp add: get_object_by_key)
    moreover have "full_clean clean_comment CommentForm_fields db
           (CommentForm (or_None (req_POST request)) (Some c)) = None \<or>
        (\<exists>es. full_clean clean_comment CommentForm_fields db
           (CommentForm (or_None (req_POST request)) (Some c)) = Some (Inl es))"
      using h by (intro not_valid_cases) simp
    ultimately show ?thesis using h user by (auto simp: edit_comment_def)
  qed
  have prof: "edit_profile clean_profile db now request =
         (db, Render ''blog/user.html''
                (ProfileFormContext (ProfileForm (Some (req_POST request)) (Some u))))"
    if "\<not> is_valid clean_profile ProfileForm_fields db
         (ProfileForm (Some (req_POST request)) (Some u))"
    using not_valid_cases [OF that] user by (auto simp: edit_profile_def)
  have add: "add_comment clean_comment db now request (post_id p) =
         (db, Redirect (PostDetailURL (post_id p)))"
    if m: "p \<in> set (posts db)"
      and h: "distinct (map post_id (posts db)) \<and>
       \<not> is_valid clean_comment CommentForm_fields db
           (CommentForm (or_None (req_POST request)) None)" for p
  proof -
    have "get_object_or_404 (\<lambda>q. post_id q = post_id p) (posts db) = Inr p"
      using m h by (simp add: get_object_by_key)
    moreover have "full_clean clean_comment CommentForm_fields db
           (CommentForm (or_None (req_POST request)) None) = None \<or>
        (\<exists>es. full_clean clean_comment CommentForm_fields db
           (CommentForm (or_None (req_POST request)) None) = Some (Inl es))"
      using h by (intro not_valid_cases) simp
    ultimately show ?thesis using user by (auto simp: add_comment_def)
  qed
  have errs: "full_clean clean names db f = Some (Inl (errors clean names db f))"
    if "is_bound f \<and> \<not> is_valid clean names db f"
    using that
    by (auto simp: is_valid_def errors_def full_clean_def split: option.splits sum.splits)
  show ?thesis
    by (rule conjI, rule impI, erule create,
        rule conjI, rule ballI, rule impI, erule (1) edit,
        rule conjI, rule ballI, rule impI, erule (1) editc,
        rule conjI, rule impI, erule prof,
        rule conjI, rule ballI, rule impI, erule (1) add,
        rule impI, erule errs)
qed

theorem invalid_form_persists_nothing_witness:
  "\<not> is_valid post_cleaner PostForm_fields blog
      (PostForm (or_None [(''title'', '''')]) (or_None []) None) \<and>
   create_post post_cleaner blog 100 (post_request (User bob) [(''title'', '''')]) =
     (blog, Render ''blog/create.html''
        (PostFormContext (PostForm (Some [(''title'', '''')]) None None))) \<and>
   errors post_cleaner PostForm_fields blog
      (PostForm (or_None [(''title'', '''')]) (or_None []) None) =
     [(''title'', ''This field is required.''), (''text'', ''This field is required.'')] \<and>
   edit_post post_cleaner blog 100 (post_request (User bob) [(''title'', '''')]) 3 =
     (blog, Render ''blog/create.html''
        (PostFormContext (PostForm (Some [(''title'', '''')]) None (Some post3)))) \<and>
   add_comment comment_cleaner blog 100 (post_request (User bob) [(''title'', '''')]) 3 =
     (blog, Redirect (PostDetailURL 3))"
proof -
  let ?d = "[(''title'', '''')]"
  let ?rq = "post_request (User bob) ?d"
  have rq: "req_user ?rq = User bob" "req_POST ?rq = ?d" "req_FILES ?rq = []"
    by (simp_all add: post_request_def)
  have o: "or_None ?d = Some ?d" "or_None ([] :: querydict) = None"
    by (simp_all add: or_None_def)
  have fd: "form_field_data PostForm_fields (Some ?d) = ?d"
    by (simp add: form_field_data_def PostForm_fields_def PostForm_exclude_def Post_fields_def)
  have fc: "full_clean post_cleaner PostForm_fields blog (PostForm (Some ?d) None inst) =
              Some (Inl [(''title'', ''This field is required.''), (''text'', ''This field is required.'')])" for inst
    by (simp add: full_clean_def is_bound_def PostForm_def fd)
       (simp add: post_cleaner_def required_def)
  have i1: "\<not> is_valid post_cleaner PostForm_fields blog (PostForm (Some ?d) None inst)" for inst
    by (simp add: is_valid_def fc)
  have e1: "errors post_cleaner PostForm_fields blog (PostForm (Some ?d) None None) =
              [(''title'', ''This field is required.''), (''text'', ''This field is required.'')]"
    by (simp add: errors_def fc)
  have i2: "\<not> is_valid comment_cleaner CommentForm_fields blog (CommentForm (Some ?d) None)"
    by (simp add: is_valid_def full_clean_def is_bound_def CommentForm_def form_field_data_def
          CommentForm_fields_def comment_cleaner_def required_def)
  have p: "post3 \<in> set (posts blog)" "post_id post3 = 3"
    "distinct (map post_id (posts blog))" "author post3 = user_id bob"
    by (simp_all add: blog_def post1_def post2_def post3_def post4_def bob_def)
  note t = invalid_form_persists_nothing
             [OF rq(1), where db = blog and now = 100 and clean_post = post_cleaner
                and clean_comment = comment_cleaner, unfolded rq o]
  have a: "create_post post_cleaner blog 100 ?rq =
     (blog, Render ''blog/create.html''
        (PostFormContext (PostForm (Some ?d) None None)))"
    using t i1 by blast
  have b: "edit_post post_cleaner blog 100 ?rq (post_id post3) =
     (blog, Render ''blog/create.html''
        (PostFormContext (PostForm (Some ?d) None (Some post3))))"
    using t i1 p by blast
  have c: "add_comment comment_cleaner blog 100 ?rq (post_id post3) =
     (blog, Redirect (PostDetailURL (post_id post3)))"
    using t i2 p by blast
  show ?thesis using a b c i1 e1 by (simp add: o p(2))
qed

text \<open>
  C6 as stated fails for add comment: a comment with an empty text is invalid, nothing
  is stored, and the answer is a redirect to the post, not the form with its errors.
\<close>

theorem add_comment_invalid_counterexample:
  "\<not> is_valid comment_cleaner CommentForm_fields blog (CommentForm (or_None [(''text'', '''')]) None) \<and>
   add_comment comment_cleaner blog 100 (post_request (User bob) [(''text'', '''')]) 1 =
     (blog, Redirect (PostDetailURL 1))"
  by (simp add: is_valid_def add_comment_def full_clean_def is_bound_def CommentForm_def
        or_None_def form_field_data_def CommentForm_fields_def comment_cleaner_def required_def
        post_request_def get_object_or_404_def orm_get_def blog_def post1_def post2_def
        post3_def post4_def)

end
